theory Spec2Isabelle
  imports Complex_Main "HOL-Library.Word"
begin

section \<open>Data model of the evaluation notebook\<close>

text \<open>
  The program is the single code cell of \<^verbatim>\<open>model_evaluation-checkpoint.ipynb\<close>.
  Numbers are modelled as rationals: every floating-point operation the notebook itself
  performs on coordinates is a multiplication or a division by \<open>128 = 2 ^ 7\<close>, which only
  changes the exponent of a binary floating-point number, so that exact arithmetic agrees
  with the notebook on the coordinates it can meet (rounding, overflow and NaN are not
  modelled).

  An annotation record is one entry of the JSON list of an image: the keys \<^verbatim>\<open>x1\<close>,
  \<^verbatim>\<open>y1\<close>, \<^verbatim>\<open>x2\<close>, \<^verbatim>\<open>y2\<close> (JSON numbers, integral or not) and \<^verbatim>\<open>label\<close> (a string).
  Records that lack one of the keys are outside the model.
\<close>

record annotation =
  x1 :: rat
  y1 :: rat
  x2 :: rat
  y2 :: rat
  label :: string

text \<open>A row of a box array: the four numbers \<^verbatim>\<open>[x1, y1, x2, y2]\<close>.\<close>

type_synonym 'a box = "'a \<times> 'a \<times> 'a \<times> 'a"

text \<open>
  A decoded image is a grid of rows of pixels, a pixel a list of 8-bit channels
  (\<^verbatim>\<open>cv2.imread\<close> yields \<^verbatim>\<open>uint8\<close> arrays); the preprocessed image has rational
  channels.
\<close>

type_synonym raw_image = "8 word list list list"
type_synonym image = "rat list list list"

text \<open>The annotation dictionary in the order of its keys (Python dictionaries keep it).\<close>

type_synonym annotation_dict = "(string \<times> annotation list) list"

datatype error =
  FileNotFoundError | JSONDecodeError | Cv2Error | ModelLoadError
  | PredictError | ValueError | IndexError

text \<open>What the program does to the outside world, in order.\<close>

datatype output_line =
  LoadedAnnotations nat
  | DatasetPrepared nat
  | ModelLoaded string
  | BBoxMSE rat
  | ReportHeader
  | Report string

datatype draw =
  Rectangle "int \<times> int" int int string
  | Text int int string string

record figure =
  shown_image :: image
  patches :: "draw list"

datatype event =
  FileOpen string string
  | FileClose string
  | ImRead string
  | LoadModel string
  | Predict nat
  | Print output_line
  | Show figure

text \<open>
  A computation yields the events it caused and either the exception that ended it or its
  value. The notebook has no \<^verbatim>\<open>try\<close> statement, so sequencing stops at the first
  exception.
\<close>

type_synonym 'a run = "event list \<times> (error + 'a)"

definition ret :: "'a \<Rightarrow> 'a run" where
  "ret a = ([], Inr a)"

definition raise :: "error \<Rightarrow> 'a run" where
  "raise e = ([], Inl e)"

definition emit :: "event \<Rightarrow> unit run" where
  "emit ev = ([ev], Inr ())"

definition lift :: "error + 'a \<Rightarrow> 'a run" where
  "lift r = ([], r)"

definition bnd :: "'a run \<Rightarrow> ('a \<Rightarrow> 'b run) \<Rightarrow> 'b run" where
  "bnd m f =
     (case m of
        (t, Inl e) \<Rightarrow> (t, Inl e)
      | (t, Inr a) \<Rightarrow> (case f a of (t', r) \<Rightarrow> (t @ t', r)))"

text \<open>
  The libraries and the files the notebook reads are parameters of the model:
  \<^item> \<open>open_read\<close>: \<^verbatim>\<open>open(path, 'r')\<close>, the text of the file or the exception;
  \<^item> \<open>json_load\<close>: \<^verbatim>\<open>json.load\<close> on that text;
  \<^item> \<open>cv2_imread\<close>: \<^verbatim>\<open>cv2.imread\<close>, which returns \<^verbatim>\<open>None\<close> for a file it cannot
    read instead of raising;
  \<^item> \<open>interp8\<close>, \<open>interpf\<close>: the pixel \<^verbatim>\<open>cv2.resize\<close> computes at a row and column of
    its output, for 8-bit and for floating-point images;
  \<^item> \<open>load_model\<close>: \<^verbatim>\<open>tf.keras.models.load_model\<close>, whose value is the model's
    \<^verbatim>\<open>predict\<close>: for a batch of images, the box head and the class head;
  \<^item> \<open>classification_report\<close>: the function of that name of scikit-learn.
\<close>

record env =
  open_read :: "string \<Rightarrow> error + string"
  json_load :: "string \<Rightarrow> error + annotation_dict"
  cv2_imread :: "string \<Rightarrow> raw_image option"
  interp8 :: "raw_image \<Rightarrow> nat \<Rightarrow> nat \<Rightarrow> 8 word list"
  interpf :: "image \<Rightarrow> nat \<Rightarrow> nat \<Rightarrow> rat list"
  load_model :: "string \<Rightarrow> error + (image list \<Rightarrow> error + (rat box list list \<times> rat list list))"
  classification_report :: "int list \<Rightarrow> int list \<Rightarrow> error + string"

section \<open>Paths\<close>

definition image_dir :: string where
  "image_dir = ''../data/images''"

definition test_annotation_file :: string where
  "test_annotation_file = ''../data/test_annotations.json''"

definition model_path :: string where
  "model_path = ''../models/dental_fault_detector.h5''"

text \<open>\<^verbatim>\<open>os.path.join\<close> on a directory without a trailing slash: an absolute second
  component replaces the first.\<close>

definition os_path_join :: "string \<Rightarrow> string \<Rightarrow> string" where
  "os_path_join a b =
     (case b of
        [] \<Rightarrow> a @ ''/''
      | c # _ \<Rightarrow> if c = CHR ''/'' then b else a @ ''/'' @ b)"

section \<open>Loading the annotations\<close>

definition load_annotations :: "env \<Rightarrow> string \<Rightarrow> annotation_dict run" where
  "load_annotations E annotation_file =
     bnd (emit (FileOpen annotation_file ''r'')) (\<lambda>_.
     bnd (lift (open_read E annotation_file)) (\<lambda>f.
       case json_load E f of
         Inl e \<Rightarrow> bnd (emit (FileClose annotation_file)) (\<lambda>_. raise e)
       | Inr d \<Rightarrow> bnd (emit (FileClose annotation_file)) (\<lambda>_. ret d)))"

section \<open>Preprocessing\<close>

text \<open>\<^verbatim>\<open>cv2.resize(src, (width, height))\<close>: an exception on \<^verbatim>\<open>None\<close>, otherwise a grid
  of \<open>height\<close> rows of \<open>width\<close> pixels.\<close>

definition cv2_resize ::
  "('p list list \<Rightarrow> nat \<Rightarrow> nat \<Rightarrow> 'p) \<Rightarrow> 'p list list option \<Rightarrow> nat \<times> nat \<Rightarrow> error + 'p list list" where
  "cv2_resize interp src dsize =
     (case src of
        None \<Rightarrow> Inl Cv2Error
      | Some img \<Rightarrow>
          Inr (map (\<lambda>r. map (\<lambda>c. interp img r c) [0..<fst dsize]) [0..<snd dsize]))"

text \<open>\<^verbatim>\<open>image / 255.0\<close>\<close>

definition scale_pixels :: "raw_image \<Rightarrow> image" where
  "scale_pixels img = map (map (map (\<lambda>v. of_nat (unat v) / 255))) img"

definition normalized_box :: "annotation \<Rightarrow> rat box" where
  "normalized_box ann = (x1 ann / 128, y1 ann / 128, x2 ann / 128, y2 ann / 128)"

definition class_id :: "annotation \<Rightarrow> int" where
  "class_id ann = (if label ann = ''Fault'' then 1 else 0)"

definition load_and_preprocess_image ::
  "env \<Rightarrow> string \<Rightarrow> annotation list \<Rightarrow> (image \<times> rat box list \<times> int list) run" where
  "load_and_preprocess_image E image_path annotations =
     bnd (emit (ImRead image_path)) (\<lambda>_.
     bnd (lift (cv2_resize (interp8 E) (cv2_imread E image_path) (128, 128))) (\<lambda>img.
       ret (scale_pixels img, map normalized_box annotations, map class_id annotations)))"

fun create_test_dataset ::
  "env \<Rightarrow> annotation_dict \<Rightarrow> string \<Rightarrow> (image list \<times> rat box list list \<times> int list list) run" where
  "create_test_dataset E [] dir = ret ([], [], [])"
| "create_test_dataset E ((image_name, anns) # rest) dir =
     bnd (load_and_preprocess_image E (os_path_join dir image_name) anns) (\<lambda>(img, b, c).
     bnd (create_test_dataset E rest dir) (\<lambda>(images, boxes, classes).
       ret (img # images, b # boxes, c # classes)))"

section \<open>Denormalisation and the box metric\<close>

text \<open>\<^verbatim>\<open>astype(int)\<close> on a floating-point array truncates towards zero.\<close>

definition astype_int :: "rat \<Rightarrow> int" where
  "astype_int q = (if 0 \<le> q then \<lfloor>q\<rfloor> else \<lceil>q\<rceil>)"

definition denormalize_box :: "int \<Rightarrow> rat box \<Rightarrow> int box" where
  "denormalize_box image_size bx =
     (case bx of (a, b, c, d) \<Rightarrow>
        (astype_int (a * of_int image_size), astype_int (b * of_int image_size),
         astype_int (c * of_int image_size), astype_int (d * of_int image_size)))"

text \<open>\<^verbatim>\<open>(boxes * image_size).astype(int)\<close> on the box array of one image; the default
  \<^verbatim>\<open>image_size=128\<close> is passed by every caller.\<close>

definition denormalize_boxes :: "rat box list \<Rightarrow> int \<Rightarrow> int box list" where
  "denormalize_boxes boxes image_size = map (denormalize_box image_size) boxes"

text \<open>
  \<^verbatim>\<open>np.concatenate\<close> along the first axis: an exception on an empty sequence. The box
  array of an image without annotations is one-dimensional (\<^verbatim>\<open>np.array([])\<close>), and
  joining it with a two-dimensional one is an exception as well.
\<close>

definition np_concatenate :: "'a list list \<Rightarrow> error + 'a list" where
  "np_concatenate arrays = (if arrays = [] then Inl ValueError else Inr (concat arrays))"

definition np_concatenate_rows :: "'a list list \<Rightarrow> error + 'a list" where
  "np_concatenate_rows arrays =
     (if arrays = [] then Inl ValueError
      else if [] \<in> set arrays \<and> concat arrays \<noteq> [] then Inl ValueError
      else Inr (concat arrays))"

text \<open>
  \<^verbatim>\<open>sklearn.metrics.mean_squared_error\<close> on two arrays of four-column rows: an exception
  when the numbers of rows differ or there is no row; otherwise the mean of the squared
  differences of each column, averaged over the four columns.
\<close>

definition column_mse :: "(int box \<Rightarrow> int) \<Rightarrow> int box list \<Rightarrow> int box list \<Rightarrow> rat" where
  "column_mse sel y_true y_pred =
     of_int (sum_list (map (\<lambda>(t, p). (sel t - sel p)\<^sup>2) (zip y_true y_pred)))
       / of_nat (length y_true)"

definition mean_squared_error :: "int box list \<Rightarrow> int box list \<Rightarrow> error + rat" where
  "mean_squared_error y_true y_pred =
     (if length y_true \<noteq> length y_pred then Inl ValueError
      else if y_true = [] then Inl ValueError
      else Inr ((column_mse (\<lambda>(a, b, c, d). a) y_true y_pred
               + column_mse (\<lambda>(a, b, c, d). b) y_true y_pred
               + column_mse (\<lambda>(a, b, c, d). c) y_true y_pred
               + column_mse (\<lambda>(a, b, c, d). d) y_true y_pred) / 4))"

text \<open>
  The metric of the notebook, from the normalised ground-truth boxes of the data set (one
  array an image) and the box head of the model (one array a sample, as the visualisation
  loop reads it).
\<close>

definition bbox_mse :: "rat box list list \<Rightarrow> rat box list list \<Rightarrow> error + rat" where
  "bbox_mse test_boxes predicted_boxes =
     (let test_boxes_denorm = map (\<lambda>b. denormalize_boxes b 128) test_boxes;
          predicted_boxes_denorm = map (\<lambda>b. denormalize_boxes b 128) predicted_boxes
      in case np_concatenate_rows test_boxes_denorm of
           Inl e \<Rightarrow> Inl e
         | Inr y_true \<Rightarrow>
             (case np_concatenate predicted_boxes_denorm of
                Inl e \<Rightarrow> Inl e
              | Inr y_pred \<Rightarrow> mean_squared_error y_true y_pred))"

section \<open>Classification\<close>

text \<open>\<^verbatim>\<open>(predicted_classes > 0.5).astype(int)\<close>\<close>

definition predicted_classes_binary :: "rat list list \<Rightarrow> int list list" where
  "predicted_classes_binary predicted_classes =
     map (map (\<lambda>score. if score > 1 / 2 then 1 else 0)) predicted_classes"

section \<open>Visualisation\<close>

definition draw_true :: "int box \<times> int \<Rightarrow> draw list" where
  "draw_true bc =
     (case bc of ((a, b, c, d), cls) \<Rightarrow>
        if cls = 1
        then [Rectangle (a, b) (c - a) (d - b) ''green'', Text a (b - 5) ''True Fault'' ''green'']
        else [])"

definition draw_pred :: "rat \<Rightarrow> int box \<times> int \<Rightarrow> draw list" where
  "draw_pred threshold bc =
     (case bc of ((a, b, c, d), cls) \<Rightarrow>
        if of_int cls > threshold
        then [Rectangle (a, b) (c - a) (d - b) ''red'', Text a (b - 5) ''Pred Fault'' ''red'']
        else [])"

definition visualize_predictions ::
  "env \<Rightarrow> image \<Rightarrow> int box list \<Rightarrow> int box list \<Rightarrow> int list \<Rightarrow> int list \<Rightarrow> rat \<Rightarrow> unit run" where
  "visualize_predictions E img true_boxes pred_boxes true_classes pred_classes threshold =
     bnd (lift (cv2_resize (interpf E) (Some img) (128, 128))) (\<lambda>img'.
       emit (Show \<lparr>shown_image = img',
                   patches = concat (map draw_true (zip true_boxes true_classes))
                           @ concat (map (draw_pred threshold) (zip pred_boxes pred_classes))\<rparr>))"

text \<open>Indexing an array or a list by a number of \<^verbatim>\<open>range(5)\<close>.\<close>

definition np_index :: "'a list \<Rightarrow> nat \<Rightarrow> error + 'a" where
  "np_index xs i = (if i < length xs then Inr (xs ! i) else Inl IndexError)"

definition display_sample ::
  "env \<Rightarrow> image list \<Rightarrow> int box list list \<Rightarrow> int box list list \<Rightarrow> int list list
     \<Rightarrow> int list list \<Rightarrow> nat \<Rightarrow> unit run" where
  "display_sample E test_images test_boxes_denorm predicted_boxes_denorm test_classes
       pred_binary i =
     bnd (lift (np_index test_images i)) (\<lambda>img.
     bnd (lift (np_index test_boxes_denorm i)) (\<lambda>tb.
     bnd (lift (np_index predicted_boxes_denorm i)) (\<lambda>pb.
     bnd (lift (np_index test_classes i)) (\<lambda>tc.
     bnd (lift (np_index pred_binary i)) (\<lambda>pc.
       visualize_predictions E img tb pb tc pc (1 / 2))))))"

text \<open>\<^verbatim>\<open>for i in range(5): visualize_predictions(...)\<close>, as a loop over the indices.\<close>

fun display_loop ::
  "env \<Rightarrow> image list \<Rightarrow> int box list list \<Rightarrow> int box list list \<Rightarrow> int list list
     \<Rightarrow> int list list \<Rightarrow> nat list \<Rightarrow> unit run" where
  "display_loop E imgs tbs pbs tcs pcs [] = ret ()"
| "display_loop E imgs tbs pbs tcs pcs (i # is) =
     bnd (display_sample E imgs tbs pbs tcs pcs i) (\<lambda>_.
       display_loop E imgs tbs pbs tcs pcs is)"

section \<open>The notebook cell\<close>

text \<open>The module-level variables the later claims speak about, as they are when the cell
  has run to its end.\<close>

record globals =
  test_annotations :: annotation_dict
  test_images :: "image list"
  test_boxes :: "rat box list list"
  test_classes :: "int list list"
  bbox_mse_value :: rat

definition script :: "env \<Rightarrow> globals run" where
  "script E =
     bnd (load_annotations E test_annotation_file) (\<lambda>annotations.
     bnd (emit (Print (LoadedAnnotations (length annotations)))) (\<lambda>_.
     bnd (create_test_dataset E annotations image_dir) (\<lambda>(images, boxes, classes).
     bnd (emit (Print (DatasetPrepared (length images)))) (\<lambda>_.
     bnd (emit (LoadModel model_path)) (\<lambda>_.
     bnd (lift (load_model E model_path)) (\<lambda>model.
     bnd (emit (Print (ModelLoaded model_path))) (\<lambda>_.
     bnd (emit (Predict (length images))) (\<lambda>_.
     bnd (lift (model images)) (\<lambda>(predicted_boxes, predicted_classes).
     bnd (lift (bbox_mse boxes predicted_boxes)) (\<lambda>mse.
     bnd (emit (Print (BBoxMSE mse))) (\<lambda>_.
     bnd (lift (np_concatenate classes)) (\<lambda>test_classes_flat.
     bnd (lift (np_concatenate (predicted_classes_binary predicted_classes))) (\<lambda>predicted_classes_flat.
     bnd (emit (Print ReportHeader)) (\<lambda>_.
     bnd (lift (classification_report E test_classes_flat predicted_classes_flat)) (\<lambda>report.
     bnd (emit (Print (Report report))) (\<lambda>_.
     bnd (display_loop E images
            (map (\<lambda>b. denormalize_boxes b 128) boxes)
            (map (\<lambda>b. denormalize_boxes b 128) predicted_boxes)
            classes (predicted_classes_binary predicted_classes) [0..<5]) (\<lambda>_.
       ret \<lparr>test_annotations = annotations, test_images = images, test_boxes = boxes,
            test_classes = classes, bbox_mse_value = mse\<rparr>)))))))))))))))))"

section \<open>Vocabulary of the properties\<close>






text \<open>The sum of the squared differences of the four coordinates of two pixel boxes.\<close>

definition sq_dist :: "int box \<Rightarrow> int box \<Rightarrow> int" where
  "sq_dist t p =
     (case t of (a, b, c, d) \<Rightarrow> case p of (a', b', c', d') \<Rightarrow>
        (a - a')\<^sup>2 + (b - b')\<^sup>2 + (c - c')\<^sup>2 + (d - d')\<^sup>2)"





fun is_open :: "event \<Rightarrow> bool" where
  "is_open (FileOpen p m) = True"
| "is_open ev = False"

fun writes_file :: "event \<Rightarrow> bool" where
  "writes_file (FileOpen p m) = (m \<noteq> ''r'')"
| "writes_file ev = False"

text \<open>The images of the data set are read in the order of the dictionary.\<close>

definition image_reads :: "string \<Rightarrow> annotation_dict \<Rightarrow> event list" where
  "image_reads dir d = map (\<lambda>(image_name, anns). ImRead (os_path_join dir image_name)) d"

definition readable :: "env \<Rightarrow> string \<Rightarrow> annotation_dict \<Rightarrow> bool" where
  "readable E dir d =
     list_all (\<lambda>(image_name, anns). cv2_imread E (os_path_join dir image_name) \<noteq> None) d"

section \<open>Example inputs\<close>

definition wide_annotation :: annotation where
  "wide_annotation = \<lparr>x1 = 10, y1 = 10, x2 = 200, y2 = 50, label = ''Fault''\<rparr>"

definition void_annotation :: annotation where
  "void_annotation = \<lparr>x1 = 32, y1 = 64, x2 = 96, y2 = 128, label = ''Void''\<rparr>"

definition finish_line_annotation :: annotation where
  "finish_line_annotation =
     \<lparr>x1 = 0, y1 = 16, x2 = 48, y2 = 80, label = ''Uneven Finish Line''\<rparr>"


definition tooth :: string where
  "tooth = ''../data/images/tooth.png''"


text \<open>A world with one annotated image that can be read, and a model file that cannot be
  loaded.\<close>

definition example_env :: env where
  "example_env =
     \<lparr>open_read = (\<lambda>p. if p = test_annotation_file then Inr ''{}'' else Inl FileNotFoundError),
      json_load = (\<lambda>s. Inr [(''tooth.png'', [void_annotation])]),
      cv2_imread = (\<lambda>p. if p = ''../data/images/tooth.png'' then Some [[[0, 128, 255]]] else None),
      interp8 = (\<lambda>img r c. [0, 128, 255]),
      interpf = (\<lambda>img r c. [0, 1 / 2, 1]),
      load_model = (\<lambda>p. Inl ModelLoadError),
      classification_report = (\<lambda>t p. Inr ''report'')\<rparr>"

text \<open>The same world without the annotation file, with an annotation file that is not
  JSON, and with a second annotated image that cannot be read.\<close>

definition missing_file_env :: env where
  "missing_file_env = example_env\<lparr>open_read := (\<lambda>p. Inl FileNotFoundError)\<rparr>"

definition bad_json_env :: env where
  "bad_json_env = example_env\<lparr>json_load := (\<lambda>s. Inl JSONDecodeError)\<rparr>"

definition missing_image_env :: env where
  "missing_image_env =
     example_env\<lparr>json_load := (\<lambda>s. Inr [(''tooth.png'', [void_annotation]),
                                          (''missing.png'', [wide_annotation]),
                                          (''other.png'', [])])\<rparr>"

text \<open>A world in which the whole cell runs: five annotated images and a model that
  answers every image with one box and one score.\<close>

definition five_annotations :: annotation_dict where
  "five_annotations =
     [(''a.png'', [void_annotation]), (''b.png'', [void_annotation]),
      (''c.png'', [void_annotation]), (''d.png'', [void_annotation]),
      (''e.png'', [void_annotation])]"

definition example_model :: "image list \<Rightarrow> error + (rat box list list \<times> rat list list)" where
  "example_model images =
     Inr (map (\<lambda>img. [(1 / 4, 1 / 2, 3 / 4, 1)]) images, map (\<lambda>img. [3 / 4]) images)"

definition full_env :: env where
  "full_env =
     example_env\<lparr>json_load := (\<lambda>s. Inr five_annotations),
                 cv2_imread := (\<lambda>p. Some [[[0, 128, 255]]]),
                 load_model := (\<lambda>p. Inr example_model)\<rparr>"

section \<open>Preprocessing of one image\<close>

lemma load_and_preprocess_image_Inr:
  "load_and_preprocess_image E path anns = (t, Inr (img, boxes, classes)) \<Longrightarrow>
     (\<exists>raw. cv2_imread E path = Some raw
        \<and> img = scale_pixels (map (\<lambda>r. map (\<lambda>c. interp8 E raw r c) [0..<128]) [0..<128]))
     \<and> boxes = map normalized_box anns \<and> classes = map class_id anns \<and> t = [ImRead path]"
  by (auto simp: load_and_preprocess_image_def bnd_def emit_def lift_def ret_def cv2_resize_def
           split: option.splits)

lemma example_load:
  "load_and_preprocess_image example_env tooth anns =
     ([ImRead tooth],
      Inr (scale_pixels (map (\<lambda>r. map (\<lambda>c. [0, 128, 255]) [0..<128]) [0..<128]),
           map normalized_box anns, map class_id anns))"
  by (simp add: load_and_preprocess_image_def bnd_def emit_def lift_def ret_def cv2_resize_def
        example_env_def tooth_def)













text \<open>
  Claim C9. In the classes that \<open>load_and_preprocess_image\<close> returns, the class of an
  annotation is 1 exactly when its label is the string \<^verbatim>\<open>Fault\<close>, and 0 for every other
  label.
\<close>

theorem class_id_fault_only:
  assumes "load_and_preprocess_image E path anns = (t, Inr (img, boxes, classes))"
  shows "length classes = length anns
         \<and> (\<forall>i < length anns.
              (classes ! i = 1 \<longleftrightarrow> label (anns ! i) = ''Fault'')
              \<and> (classes ! i = 0 \<longleftrightarrow> label (anns ! i) \<noteq> ''Fault''))"
  using load_and_preprocess_image_Inr [OF assms] by (simp add: class_id_def)

theorem class_id_fault_only_witness:
  "map class_id [wide_annotation, void_annotation, finish_line_annotation] = [1, 0, 0]
   \<and> map label [wide_annotation, void_annotation, finish_line_annotation]
       = [''Fault'', ''Void'', ''Uneven Finish Line'']"
  using class_id_fault_only [OF example_load [of "[wide_annotation, void_annotation, finish_line_annotation]"]]
  by (simp add: class_id_def wide_annotation_def void_annotation_def finish_line_annotation_def)

section \<open>The box metric\<close>

lemma column_sums:
  "sum_list (map (\<lambda>(t, p). ((\<lambda>(a, b, c, d). a) t - (\<lambda>(a, b, c, d). a) p)\<^sup>2) zs)
   + sum_list (map (\<lambda>(t, p). ((\<lambda>(a, b, c, d). b) t - (\<lambda>(a, b, c, d). b) p)\<^sup>2) zs)
   + sum_list (map (\<lambda>(t, p). ((\<lambda>(a, b, c, d). c) t - (\<lambda>(a, b, c, d). c) p)\<^sup>2) zs)
   + sum_list (map (\<lambda>(t, p). ((\<lambda>(a, b, c, d). d) t - (\<lambda>(a, b, c, d). d) p)\<^sup>2) zs)
   = sum_list (map (\<lambda>(t, p). sq_dist t p) zs)"
  by (induction zs) (auto simp: sq_dist_def)

lemma mean_squared_error_total:
  assumes "length y_true = length y_pred" "y_true \<noteq> []"
  shows "mean_squared_error y_true y_pred =
           Inr (of_int (sum_list (map (\<lambda>(t, p). sq_dist t p) (zip y_true y_pred)))
                  / of_nat (4 * length y_true))"
proof -
  have "of_int (sum_list (map (\<lambda>(t, p). sq_dist t p) (zip y_true y_pred)))
          / (of_nat (4 * length y_true) :: rat)
        = (column_mse (\<lambda>(a, b, c, d). a) y_true y_pred
           + column_mse (\<lambda>(a, b, c, d). b) y_true y_pred
           + column_mse (\<lambda>(a, b, c, d). c) y_true y_pred
           + column_mse (\<lambda>(a, b, c, d). d) y_true y_pred) / 4"
    unfolding column_sums [symmetric] column_mse_def
    by (simp add: add_divide_distrib)
  then show ?thesis using assms by (simp add: mean_squared_error_def)
qed

lemma concat_denormalize:
  "concat (map (\<lambda>b. denormalize_boxes b 128) bs) = map (denormalize_box 128) (concat bs)"
  by (simp add: denormalize_boxes_def map_concat)

text \<open>
  Claim C4. When every image has an annotation and the predicted boxes are as many as the
  ground-truth boxes, the metric is the mean, over all coordinates of all boxes, of the
  squared difference between the denormalised ground-truth coordinate and the denormalised
  predicted coordinate: pixel values, not the normalised ones.
\<close>

theorem bbox_mse_pixel_space:
  assumes "tb \<noteq> []" and "[] \<notin> set tb" and "length (concat tb) = length (concat pb)"
  shows "bbox_mse tb pb =
           Inr (of_int (sum_list (map (\<lambda>(t, p). sq_dist (denormalize_box 128 t) (denormalize_box 128 p))
                                   (zip (concat tb) (concat pb))))
                  / of_nat (4 * length (concat tb)))"
proof -
  from assms(1,2) have ne: "concat tb \<noteq> []" by (cases tb) auto
  with assms(3) have pb: "pb \<noteq> []" by auto
  have rows: "np_concatenate_rows (map (\<lambda>b. denormalize_boxes b 128) tb)
                = Inr (map (denormalize_box 128) (concat tb))"
  proof -
    have "[] \<notin> set (map (\<lambda>b. denormalize_boxes b 128) tb)"
      using assms(2) by (auto simp: denormalize_boxes_def)
    then show ?thesis
      using assms(1) by (simp add: np_concatenate_rows_def concat_denormalize)
  qed
  have preds: "np_concatenate (map (\<lambda>b. denormalize_boxes b 128) pb)
                = Inr (map (denormalize_box 128) (concat pb))"
    using pb by (simp add: np_concatenate_def concat_denormalize)
  have "mean_squared_error (map (denormalize_box 128) (concat tb))
            (map (denormalize_box 128) (concat pb))
         = Inr (of_int (sum_list (map (\<lambda>(t, p). sq_dist t p)
                  (zip (map (denormalize_box 128) (concat tb))
                       (map (denormalize_box 128) (concat pb)))))
                  / of_nat (4 * length (concat tb)))"
    using mean_squared_error_total [of "map (denormalize_box 128) (concat tb)"
        "map (denormalize_box 128) (concat pb)"] assms(3) ne
    by simp
  also have "map (\<lambda>(t, p). sq_dist t p)
                  (zip (map (denormalize_box 128) (concat tb))
                       (map (denormalize_box 128) (concat pb)))
             = map (\<lambda>(t, p). sq_dist (denormalize_box 128 t) (denormalize_box 128 p))
                  (zip (concat tb) (concat pb))"
    by (simp add: zip_map_map split_def)
  finally show ?thesis
    by (simp add: bbox_mse_def rows preds)
qed

text \<open>One ground-truth box \<open>(0, 0, 64, 64)\<close> against the prediction \<open>(0, 0, 128, 128)\<close>:
  the metric is \<open>(64\<^sup>2 + 64\<^sup>2) / 4 = 2048\<close>, where the normalised coordinates would give
  \<open>1 / 8\<close>.\<close>

theorem bbox_mse_pixel_space_witness:
  "bbox_mse [[(0, 0, 1 / 2, 1 / 2)]] [[(0, 0, 1, 1)]] = Inr 2048
   \<and> denormalize_box 128 (0, 0, 1 / 2, 1 / 2) = (0, 0, 64, 64)
   \<and> denormalize_box 128 (0, 0, 1, 1) = (0, 0, 128, 128)"
  using bbox_mse_pixel_space [of "[[(0, 0, 1 / 2, 1 / 2)]]" "[[(0, 0, 1, 1)]]"]
  by (simp add: sq_dist_def denormalize_box_def astype_int_def)

section \<open>Thresholded classes\<close>



section \<open>Drawing one sample\<close>

lemma visualize_predictions_eq:
  "visualize_predictions E img tb pb tc pc thr =
     ([Show \<lparr>shown_image = map (\<lambda>r. map (\<lambda>c. interpf E img r c) [0..<128]) [0..<128],
             patches = concat (map draw_true (zip tb tc))
                     @ concat (map (draw_pred thr) (zip pb pc))\<rparr>],
      Inr ())"
  by (simp add: visualize_predictions_def bnd_def lift_def cv2_resize_def emit_def)









section \<open>The display loop\<close>







lemma upt_0_5: "[0..<5] = [0, 1, 2, 3, 4]"
  by code_simp



section \<open>The whole cell: failures\<close>

lemma fst_bnd:
  "fst (bnd m f) = fst m @ (case snd m of Inl e \<Rightarrow> [] | Inr a \<Rightarrow> fst (f a))"
  by (cases m) (auto simp: bnd_def split: sum.splits prod.splits)

lemma load_and_preprocess_image_None:
  "cv2_imread E path = None \<Longrightarrow>
     load_and_preprocess_image E path anns = ([ImRead path], Inl Cv2Error)"
  by (simp add: load_and_preprocess_image_def bnd_def emit_def lift_def cv2_resize_def)

lemma load_and_preprocess_image_Some:
  "cv2_imread E path = Some raw \<Longrightarrow>
     load_and_preprocess_image E path anns =
       ([ImRead path],
        Inr (scale_pixels (map (\<lambda>r. map (\<lambda>c. interp8 E raw r c) [0..<128]) [0..<128]),
             map normalized_box anns, map class_id anns))"
  by (simp add: load_and_preprocess_image_def bnd_def emit_def lift_def cv2_resize_def ret_def)

lemma create_test_dataset_readable:
  "readable E dir d \<Longrightarrow>
     \<exists>images. create_test_dataset E d dir =
        (image_reads dir d,
         Inr (images, map (\<lambda>(n, anns). map normalized_box anns) d,
              map (\<lambda>(n, anns). map class_id anns) d))
        \<and> length images = length d"
proof (induction d)
  case Nil
  then show ?case by (simp add: ret_def image_reads_def)
next
  case (Cons p d)
  obtain n anns where p: "p = (n, anns)" by (cases p)
  from Cons.prems obtain raw where raw: "cv2_imread E (os_path_join dir n) = Some raw"
    by (auto simp: readable_def p)
  from Cons.prems have "readable E dir d" by (simp add: readable_def)
  from Cons.IH [OF this] obtain images where
    rest: "create_test_dataset E d dir =
        (image_reads dir d,
         Inr (images, map (\<lambda>(n, anns). map normalized_box anns) d,
              map (\<lambda>(n, anns). map class_id anns) d))" and len: "length images = length d"
    by blast
  show ?case
    by (simp add: p load_and_preprocess_image_Some [OF raw] rest len bnd_def ret_def image_reads_def)
qed

lemma create_test_dataset_unreadable:
  "readable E dir pre \<Longrightarrow> cv2_imread E (os_path_join dir name) = None \<Longrightarrow>
     create_test_dataset E (pre @ (name, anns) # post) dir =
       (image_reads dir (pre @ [(name, anns)]), Inl Cv2Error)"
proof (induction pre)
  case Nil
  then show ?case
    by (simp add: load_and_preprocess_image_None bnd_def image_reads_def)
next
  case (Cons p pre)
  obtain n a where p: "p = (n, a)" by (cases p)
  from Cons.prems obtain raw where raw: "cv2_imread E (os_path_join dir n) = Some raw"
    by (auto simp: readable_def p)
  from Cons.prems have "readable E dir pre" by (simp add: readable_def)
  from Cons.IH [OF this Cons.prems(2)] show ?case
    by (simp add: p load_and_preprocess_image_Some [OF raw] bnd_def image_reads_def)
qed

lemma load_annotations_open_fails:
  "open_read E file = Inl e \<Longrightarrow> load_annotations E file = ([FileOpen file ''r''], Inl e)"
  by (simp add: load_annotations_def bnd_def emit_def lift_def)

lemma load_annotations_parse_fails:
  "open_read E file = Inr s \<Longrightarrow> json_load E s = Inl e \<Longrightarrow>
     load_annotations E file = ([FileOpen file ''r'', FileClose file], Inl e)"
  by (simp add: load_annotations_def bnd_def emit_def lift_def raise_def)

lemma load_annotations_ok:
  "open_read E file = Inr s \<Longrightarrow> json_load E s = Inr d \<Longrightarrow>
     load_annotations E file = ([FileOpen file ''r'', FileClose file], Inr d)"
  by (simp add: load_annotations_def bnd_def emit_def lift_def ret_def)

text \<open>
  Claim C3. The cell handles no exception. When the annotation file cannot be opened, when
  its text cannot be parsed, when an image of the data set cannot be read (the images before
  it could), or when the model file cannot be loaded (the data set could), the run ends with
  the exception of that library call, and its events are exactly those up to the call that
  failed: one attempt, nothing after it.
\<close>

theorem failures_propagate:
  "(open_read E test_annotation_file = Inl e \<longrightarrow>
      script E = ([FileOpen test_annotation_file ''r''], Inl e))
   \<and> (open_read E test_annotation_file = Inr s \<and> json_load E s = Inl e \<longrightarrow>
      script E = ([FileOpen test_annotation_file ''r'', FileClose test_annotation_file], Inl e))
   \<and> (open_read E test_annotation_file = Inr s
        \<and> json_load E s = Inr (pre @ (name, anns) # post)
        \<and> readable E image_dir pre \<and> cv2_imread E (os_path_join image_dir name) = None \<longrightarrow>
      script E =
        ([FileOpen test_annotation_file ''r'', FileClose test_annotation_file,
          Print (LoadedAnnotations (length (pre @ (name, anns) # post)))]
         @ image_reads image_dir (pre @ [(name, anns)]), Inl Cv2Error))
   \<and> (open_read E test_annotation_file = Inr s \<and> json_load E s = Inr d
        \<and> readable E image_dir d \<and> load_model E model_path = Inl e \<longrightarrow>
      script E =
        ([FileOpen test_annotation_file ''r'', FileClose test_annotation_file,
          Print (LoadedAnnotations (length d))]
         @ image_reads image_dir d
         @ [Print (DatasetPrepared (length d)), LoadModel model_path], Inl e))"
proof (intro conjI impI)
  assume "open_read E test_annotation_file = Inl e"
  then show "script E = ([FileOpen test_annotation_file ''r''], Inl e)"
    by (simp add: script_def load_annotations_open_fails bnd_def)
next
  assume "open_read E test_annotation_file = Inr s \<and> json_load E s = Inl e"
  then show "script E = ([FileOpen test_annotation_file ''r'', FileClose test_annotation_file], Inl e)"
    by (simp add: script_def load_annotations_parse_fails bnd_def)
next
  assume a: "open_read E test_annotation_file = Inr s
        \<and> json_load E s = Inr (pre @ (name, anns) # post)
        \<and> readable E image_dir pre \<and> cv2_imread E (os_path_join image_dir name) = None"
  then have l: "load_annotations E test_annotation_file =
      ([FileOpen test_annotation_file ''r'', FileClose test_annotation_file],
       Inr (pre @ (name, anns) # post))"
    by (simp add: load_annotations_ok)
  from a have c: "create_test_dataset E (pre @ (name, anns) # post) image_dir =
       (image_reads image_dir (pre @ [(name, anns)]), Inl Cv2Error)"
    by (simp add: create_test_dataset_unreadable)
  show "script E =
        ([FileOpen test_annotation_file ''r'', FileClose test_annotation_file,
          Print (LoadedAnnotations (length (pre @ (name, anns) # post)))]
         @ image_reads image_dir (pre @ [(name, anns)]), Inl Cv2Error)"
    unfolding script_def l
    by (simp add: bnd_def emit_def c del: create_test_dataset.simps)
next
  assume a: "open_read E test_annotation_file = Inr s \<and> json_load E s = Inr d
        \<and> readable E image_dir d \<and> load_model E model_path = Inl e"
  then have l: "load_annotations E test_annotation_file =
      ([FileOpen test_annotation_file ''r'', FileClose test_annotation_file], Inr d)"
    by (simp add: load_annotations_ok)
  from a create_test_dataset_readable [of E image_dir d] obtain images where
    c: "create_test_dataset E d image_dir =
        (image_reads image_dir d,
         Inr (images, map (\<lambda>(n, anns). map normalized_box anns) d,
              map (\<lambda>(n, anns). map class_id anns) d))" and len: "length images = length d"
    by blast
  from a have m: "load_model E model_path = Inl e" by simp
  show "script E =
        ([FileOpen test_annotation_file ''r'', FileClose test_annotation_file,
          Print (LoadedAnnotations (length d))]
         @ image_reads image_dir d
         @ [Print (DatasetPrepared (length d)), LoadModel model_path], Inl e)"
    unfolding script_def l
    by (simp add: bnd_def emit_def lift_def m len c)
qed

theorem failures_propagate_witness:
  "script missing_file_env = ([FileOpen test_annotation_file ''r''], Inl FileNotFoundError)
   \<and> script bad_json_env
       = ([FileOpen test_annotation_file ''r'', FileClose test_annotation_file], Inl JSONDecodeError)
   \<and> script missing_image_env
       = ([FileOpen test_annotation_file ''r'', FileClose test_annotation_file,
           Print (LoadedAnnotations 3), ImRead tooth, ImRead ''../data/images/missing.png''],
          Inl Cv2Error)
   \<and> script example_env
       = ([FileOpen test_annotation_file ''r'', FileClose test_annotation_file,
           Print (LoadedAnnotations 1), ImRead tooth, Print (DatasetPrepared 1),
           LoadModel model_path], Inl ModelLoadError)"
proof -
  have a: "script missing_file_env = ([FileOpen test_annotation_file ''r''], Inl FileNotFoundError)"
    using failures_propagate [of missing_file_env FileNotFoundError]
    by (simp add: missing_file_env_def)
  have b: "script bad_json_env
       = ([FileOpen test_annotation_file ''r'', FileClose test_annotation_file], Inl JSONDecodeError)"
    using failures_propagate [of bad_json_env JSONDecodeError "''{}''"]
    by (simp add: bad_json_env_def example_env_def)
  have c: "script missing_image_env
       = ([FileOpen test_annotation_file ''r'', FileClose test_annotation_file,
           Print (LoadedAnnotations 3), ImRead tooth, ImRead ''../data/images/missing.png''],
          Inl Cv2Error)"
    using failures_propagate [of missing_image_env Cv2Error "''{}''"
        "[(''tooth.png'', [void_annotation])]" "''missing.png''" "[wide_annotation]"
        "[(''other.png'', [])]"]
    by (simp add: missing_image_env_def example_env_def readable_def image_reads_def
          os_path_join_def image_dir_def tooth_def)
  have d: "script example_env
       = ([FileOpen test_annotation_file ''r'', FileClose test_annotation_file,
           Print (LoadedAnnotations 1), ImRead tooth, Print (DatasetPrepared 1),
           LoadModel model_path], Inl ModelLoadError)"
    using failures_propagate [of example_env ModelLoadError "''{}''" "[]" "[]" "[]" "[]"
        "[(''tooth.png'', [void_annotation])]"]
    by (simp add: example_env_def readable_def image_reads_def
          os_path_join_def image_dir_def tooth_def)
  from a b c d show ?thesis by blast
qed

section \<open>The whole cell: the annotation file\<close>

lemma opens_bnd:
  "filter is_open (fst (bnd m f)) =
     filter is_open (fst m) @ (case snd m of Inl e \<Rightarrow> [] | Inr a \<Rightarrow> filter is_open (fst (f a)))"
  by (simp add: fst_bnd split: sum.splits)

lemma quiet_bnd:
  "filter is_open (fst m) = [] \<Longrightarrow> (\<And>a. filter is_open (fst (f a)) = []) \<Longrightarrow>
     filter is_open (fst (bnd m f)) = []"
  by (simp add: opens_bnd split: sum.splits)

lemma quiet_emit: "\<not> is_open ev \<Longrightarrow> filter is_open (fst (emit ev)) = []"
  by (simp add: emit_def)

lemma quiet_lift: "filter is_open (fst (lift r)) = []"
  by (simp add: lift_def)

lemma quiet_ret: "filter is_open (fst (ret a)) = []"
  by (simp add: ret_def)

lemma quiet_case_prod:
  "(\<And>a b. filter is_open (fst (f a b)) = []) \<Longrightarrow> filter is_open (fst (case_prod f p)) = []"
  by (cases p) simp

lemma quiet_load_image: "filter is_open (fst (load_and_preprocess_image E path anns)) = []"
  unfolding load_and_preprocess_image_def
  by (intro quiet_bnd quiet_emit quiet_lift quiet_ret) simp

lemma quiet_create: "filter is_open (fst (create_test_dataset E d dir)) = []"
proof (induction d)
  case Nil
  show ?case by (simp add: quiet_ret)
next
  case (Cons p d)
  obtain n anns where p: "p = (n, anns)" by (cases p)
  show ?case unfolding p create_test_dataset.simps
    by (intro quiet_bnd quiet_load_image quiet_case_prod Cons.IH quiet_ret)
qed

lemma quiet_visualize:
  "filter is_open (fst (visualize_predictions E img tb pb tc pc thr)) = []"
  by (simp add: visualize_predictions_eq)

lemma quiet_display_sample: "filter is_open (fst (display_sample E imgs tbs pbs tcs pcs i)) = []"
  unfolding display_sample_def
  by (intro quiet_bnd quiet_lift quiet_visualize)

lemma quiet_display_loop: "filter is_open (fst (display_loop E imgs tbs pbs tcs pcs is)) = []"
proof (induction "is")
  case Nil
  show ?case by (simp add: quiet_ret)
next
  case (Cons i "is")
  show ?case unfolding display_loop.simps
    by (intro quiet_bnd quiet_display_sample Cons.IH)
qed

lemma opens_load_annotations:
  "filter is_open (fst (load_annotations E file)) = [FileOpen file ''r'']"
  by (cases "open_read E file")
     (auto simp: load_annotations_def bnd_def emit_def lift_def raise_def ret_def split: sum.splits)

lemma opens_script: "filter is_open (fst (script E)) = [FileOpen test_annotation_file ''r'']"
proof -
  have "filter is_open (fst (script E))
          = filter is_open (fst (load_annotations E test_annotation_file)) @ []"
    unfolding script_def
    apply (subst opens_bnd)
    apply (rule arg_cong [where f = "\<lambda>x. filter is_open (fst (load_annotations E test_annotation_file)) @ x"])
    apply (cases "snd (load_annotations E test_annotation_file)")
     apply simp
    apply (simp only: sum.case)
    apply (intro quiet_bnd quiet_emit quiet_lift quiet_ret quiet_case_prod quiet_create
        quiet_display_loop)
          apply simp_all
    done
  then show ?thesis by (simp add: opens_load_annotations)
qed

lemma snd_bnd_Inr:
  assumes "snd (bnd m f) = Inr g"
  obtains a where "snd m = Inr a" and "snd (f a) = Inr g"
  using assms by (cases m) (auto simp: bnd_def split: sum.splits prod.splits)

lemma load_annotations_Inr:
  "snd (load_annotations E file) = Inr d \<Longrightarrow>
     \<exists>s. open_read E file = Inr s \<and> json_load E s = Inr d"
  by (cases "open_read E file")
     (auto simp: load_annotations_def bnd_def emit_def lift_def raise_def ret_def split: sum.splits)

lemma snd_bnd_post:
  assumes "snd (bnd m f) = Inr g" and "\<And>a. snd (f a) = Inr g \<Longrightarrow> P"
  shows P
  using assms(1) by (rule snd_bnd_Inr) (rule assms(2))

lemma snd_case_prod_post:
  "snd (case_prod f p) = Inr g \<Longrightarrow> (\<And>a b. snd (f a b) = Inr g \<Longrightarrow> P) \<Longrightarrow> P"
  by (cases p) simp

lemma script_annotations:
  assumes "snd (script E) = Inr g"
  shows "\<exists>s. open_read E test_annotation_file = Inr s \<and> json_load E s = Inr (test_annotations g)"
proof -
  from assms obtain annotations where
    l: "snd (load_annotations E test_annotation_file) = Inr annotations"
    and r: "snd (bnd (emit (Print (LoadedAnnotations (length annotations)))) (\<lambda>_.
     bnd (create_test_dataset E annotations image_dir) (\<lambda>(images, boxes, classes).
     bnd (emit (Print (DatasetPrepared (length images)))) (\<lambda>_.
     bnd (emit (LoadModel model_path)) (\<lambda>_.
     bnd (lift (load_model E model_path)) (\<lambda>model.
     bnd (emit (Print (ModelLoaded model_path))) (\<lambda>_.
     bnd (emit (Predict (length images))) (\<lambda>_.
     bnd (lift (model images)) (\<lambda>(predicted_boxes, predicted_classes).
     bnd (lift (bbox_mse boxes predicted_boxes)) (\<lambda>mse.
     bnd (emit (Print (BBoxMSE mse))) (\<lambda>_.
     bnd (lift (np_concatenate classes)) (\<lambda>test_classes_flat.
     bnd (lift (np_concatenate (predicted_classes_binary predicted_classes))) (\<lambda>predicted_classes_flat.
     bnd (emit (Print ReportHeader)) (\<lambda>_.
     bnd (lift (classification_report E test_classes_flat predicted_classes_flat)) (\<lambda>report.
     bnd (emit (Print (Report report))) (\<lambda>_.
     bnd (display_loop E images
            (map (\<lambda>b. denormalize_boxes b 128) boxes)
            (map (\<lambda>b. denormalize_boxes b 128) predicted_boxes)
            classes (predicted_classes_binary predicted_classes) [0..<5]) (\<lambda>_.
       ret \<lparr>test_annotations = annotations, test_images = images, test_boxes = boxes,
            test_classes = classes, bbox_mse_value = mse\<rparr>))))))))))))))))) = Inr g"
    unfolding script_def by (rule snd_bnd_Inr)
  have "test_annotations g = annotations"
    using r
    apply -
    apply ((erule snd_bnd_post | erule snd_case_prod_post)+)
    apply (simp add: ret_def)
    apply auto
    done
  with load_annotations_Inr [OF l] show ?thesis by simp
qed

lemma writes_file_is_open: "writes_file ev \<Longrightarrow> is_open ev"
  by (cases ev) simp_all

text \<open>
  Claim C8. In every run of the cell, the only call of \<^verbatim>\<open>open\<close> is the one of the
  annotation file, once and in mode \<^verbatim>\<open>r\<close>; no event of the run opens a file for
  writing; and when the cell runs to its end, the variable that holds the annotations still
  holds what was parsed from the file.
\<close>

theorem annotations_read_only:
  "filter is_open (fst (script E)) = [FileOpen test_annotation_file ''r'']
   \<and> (\<forall>ev \<in> set (fst (script E)). \<not> writes_file ev)
   \<and> (snd (script E) = Inr g \<longrightarrow>
        (\<exists>s. open_read E test_annotation_file = Inr s
             \<and> json_load E s = Inr (test_annotations g)))"
proof (intro conjI ballI impI)
  show "filter is_open (fst (script E)) = [FileOpen test_annotation_file ''r'']"
    by (rule opens_script)
next
  fix ev
  assume ev: "ev \<in> set (fst (script E))"
  show "\<not> writes_file ev"
  proof
    assume w: "writes_file ev"
    with ev have "ev \<in> set (filter is_open (fst (script E)))"
      by (simp add: writes_file_is_open)
    then have "ev = FileOpen test_annotation_file ''r''"
      by (simp add: opens_script)
    with w show False by simp
  qed
next
  assume "snd (script E) = Inr g"
  then show "\<exists>s. open_read E test_annotation_file = Inr s
             \<and> json_load E s = Inr (test_annotations g)"
    by (rule script_annotations)
qed

lemma full_dataset:
  "create_test_dataset full_env five_annotations image_dir =
     (image_reads image_dir five_annotations,
      Inr (map (\<lambda>p. scale_pixels (map (\<lambda>r. map (\<lambda>c. [0, 128, 255]) [0..<128]) [0..<128]))
             five_annotations,
           map (\<lambda>p. [(1 / 4, 1 / 2, 3 / 4, 1)]) five_annotations,
           map (\<lambda>p. [0]) five_annotations))"
  by (simp add: five_annotations_def full_env_def example_env_def load_and_preprocess_image_def
        bnd_def emit_def lift_def ret_def cv2_resize_def image_reads_def normalized_box_def
        class_id_def void_annotation_def)

lemma full_load:
  "load_annotations full_env test_annotation_file =
     ([FileOpen test_annotation_file ''r'', FileClose test_annotation_file], Inr five_annotations)"
  by (rule load_annotations_ok [where s = "''{}''"]) (simp_all add: full_env_def example_env_def)

lemma full_run:
  "snd (script full_env) =
     Inr \<lparr>test_annotations = five_annotations,
          test_images = map (\<lambda>p. scale_pixels (map (\<lambda>r. map (\<lambda>c. [0, 128, 255]) [0..<128]) [0..<128]))
             five_annotations,
          test_boxes = map (\<lambda>p. [(1 / 4, 1 / 2, 3 / 4, 1)]) five_annotations,
          test_classes = map (\<lambda>p. [0]) five_annotations,
          bbox_mse_value = 0\<rparr>"
proof -
  have m: "load_model full_env model_path = Inr example_model"
    by (simp add: full_env_def)
  have r: "classification_report full_env t p = Inr ''report''" for t p
    by (simp add: full_env_def example_env_def)
  have mse: "bbox_mse [[(1 / 4, 1 / 2, 3 / 4, 1)], [(1 / 4, 1 / 2, 3 / 4, 1)], [(1 / 4, 1 / 2, 3 / 4, 1)],
        [(1 / 4, 1 / 2, 3 / 4, 1)], [(1 / 4, 1 / 2, 3 / 4, 1)]]
       [[(1 / 4, 1 / 2, 3 / 4, 1)], [(1 / 4, 1 / 2, 3 / 4, 1)], [(1 / 4, 1 / 2, 3 / 4, 1)],
        [(1 / 4, 1 / 2, 3 / 4, 1)], [(1 / 4, 1 / 2, 3 / 4, 1)]] = Inr 0"
    by (simp add: bbox_mse_def denormalize_boxes_def denormalize_box_def
        astype_int_def np_concatenate_rows_def np_concatenate_def mean_squared_error_def
        column_mse_def)
  have ds: "create_test_dataset full_env five_annotations image_dir = (image_reads image_dir five_annotations,
      Inr (map (\<lambda>p. scale_pixels (map (\<lambda>r. map (\<lambda>c. [0, 128, 255]) [0..<128]) [0..<128]))
             five_annotations,
           map (\<lambda>p. [(1 / 4, 1 / 2, 3 / 4, 1)]) five_annotations,
           map (\<lambda>p. [0]) five_annotations))"
    by (rule full_dataset)
  show ?thesis
    unfolding script_def full_load
    apply (simp add: bnd_def emit_def lift_def ret_def ds del: create_test_dataset.simps)
    apply (simp add: five_annotations_def m r example_model_def mse np_concatenate_def
        predicted_classes_binary_def upt_0_5 display_sample_def np_index_def
        visualize_predictions_eq bnd_def lift_def ret_def)
    done
qed

theorem annotations_read_only_witness:
  "\<not> isl (snd (script full_env))
   \<and> test_annotations (projr (snd (script full_env))) = five_annotations
   \<and> open_read full_env test_annotation_file = Inr ''{}''
   \<and> json_load full_env ''{}'' = Inr five_annotations
   \<and> filter is_open (fst (script full_env)) = [FileOpen test_annotation_file ''r'']"
  using annotations_read_only [of full_env "projr (snd (script full_env))"] full_run
  by (simp add: full_env_def example_env_def)

end
